theory Spec2Isabelle
  imports Complex_Main "HOL-Library.Monad_Syntax"
begin

section \<open>The 2D geometry kernel of nut\_ros: Vector2, Pose2D, Line2D\<close>

text \<open>
  The three classes are templates over a numeric type \<open>T\<close>. Except for \<open>lerp\<close>, the
  model instantiates \<open>T\<close> with the real numbers: \<open>+\<close>, \<open>-\<close>, \<open>*\<close> are exact,
  \<open>std::abs\<close>, \<open>std::min\<close>, \<open>std::max\<close>, \<open>std::sqrt\<close>, \<open>cos\<close> and \<open>sin\<close> are the
  real functions of the same name, and rounding is not modelled. The two \<open>lerp\<close> functions
  are modelled with \<open>T = double\<close> and its rounding (next subsection), because what the
  specification says of them is an identity between numbers that rounding decides.

  Division is the one operation of the kernel whose result may fail to be a number (a zero
  divisor gives an infinity or a NaN in C++). The model makes that outcome a value:
  \<open>fdiv\<close> returns \<open>None\<close> on a zero divisor, and every function that divides
  returns an option.
\<close>

definition fdiv :: "real \<Rightarrow> real \<Rightarrow> real option" where
  "fdiv a b = (if b = 0 then None else Some (a / b))"

subsection \<open>Arithmetic of double: IEEE 754 binary64, round to nearest, ties to even\<close>

text \<open>
  A finite double is a real number; the result of an operation is the exact result rounded
  to the nearest double. \<open>round_ties_even\<close> rounds to the nearest integer, a tie going to
  the even one. \<open>double_exponent r\<close> is the binary exponent of \<open>r\<close>, held at \<open>-1022\<close> in
  the subnormal range, so that \<open>2 powi (double_exponent r - 52)\<close> is the distance between
  neighbouring doubles around \<open>r\<close> (53 significant bits). A rounded magnitude of
  \<open>2 ^ 1024\<close> or more is an overflow: the C++ value is an infinity, here \<open>None\<close>, as is
  everything computed from it (an infinity or a NaN). The two zeros of the format compare
  equal and are one number here.
\<close>

definition round_ties_even :: "real \<Rightarrow> int" where
  "round_ties_even r =
     (let f = \<lfloor>r\<rfloor>; d = r - of_int f
      in if d < 1 / 2 then f else if d > 1 / 2 then f + 1 else if even f then f else f + 1)"

definition double_exponent :: "real \<Rightarrow> int" where
  "double_exponent r = max \<lfloor>log 2 \<bar>r\<bar>\<rfloor> (- 1022)"

definition double_round :: "real \<Rightarrow> real option" where
  "double_round r =
     (if r = 0 then Some 0
      else (let u = 2 powi (double_exponent r - 52);
                v = of_int (round_ties_even (r / u)) * u
            in if \<bar>v\<bar> \<ge> 2 ^ 1024 then None else Some v))"

text \<open>\<open>is_double r\<close>: the real number \<open>r\<close> is a finite double.\<close>

definition is_double :: "real \<Rightarrow> bool" where
  "is_double r = (double_round r = Some r)"

definition double_add :: "real \<Rightarrow> real \<Rightarrow> real option" where
  "double_add a b = double_round (a + b)"

definition double_sub :: "real \<Rightarrow> real \<Rightarrow> real option" where
  "double_sub a b = double_round (a - b)"

definition double_mul :: "real \<Rightarrow> real \<Rightarrow> real option" where
  "double_mul a b = double_round (a * b)"

subsection \<open>Generic::guard (nut\_generic.h)\<close>

text \<open>\<^verbatim>\<open>return ((x) < (min) ? (min) : ((x) > (max) ? (max) : (x)));\<close>\<close>

definition guard :: "real \<Rightarrow> real \<Rightarrow> real \<Rightarrow> real" where
  "guard v lo hi = (if v < lo then lo else (if v > hi then hi else v))"

subsection \<open>Vector2 (vector2.h)\<close>

text \<open>
  Fields \<open>x\<close> and \<open>y\<close>. Pose2D is declared below as the record extension of Vector2 by
  \<open>theta\<close>, only so that both classes can name their fields \<open>x\<close> and \<open>y\<close> as the
  source does; the C++ classes are unrelated and no function of one is applied to the
  other.
\<close>

record Vector2 =
  x :: real
  y :: real

text \<open>\<^verbatim>\<open>constexpr Vector2(T _x, T _y) : x(_x), y(_y) {}\<close>\<close>

definition Vector2_xy :: "real \<Rightarrow> real \<Rightarrow> Vector2" where
  "Vector2_xy a b = \<lparr>x = a, y = b\<rparr>"

text \<open>
  \<^verbatim>\<open>void rotate(T angle) { x = x * cos(angle) - y * sin(angle);
                          y = x * sin(angle) + y * cos(angle); }\<close>
  Two assignments in sequence: the second reads the field \<open>x\<close> that the first has
  written.
\<close>

definition Vector2_rotate :: "Vector2 \<Rightarrow> real \<Rightarrow> Vector2" where
  "Vector2_rotate v angle =
     (let v1 = v\<lparr>x := x v * cos angle - y v * sin angle\<rparr>;
          v2 = v1\<lparr>y := x v1 * sin angle + y v1 * cos angle\<rparr>
      in v2)"

text \<open>
  \<^verbatim>\<open>static Vector2 lerp(Vector2 a, Vector2 b, T t)
  { t = Generic::guard(t, 0.0, 1.0); Vector2 v = a;
    v.x += (b.x - a.x) * t; v.y += (b.y - a.y) * t; return v; }\<close>
  With \<open>T = double\<close>: the subtraction, the product and the sum of each statement are
  rounded one after the other. \<open>None\<close>: a field of the result is not a finite number.
\<close>

definition Vector2_lerp :: "Vector2 \<Rightarrow> Vector2 \<Rightarrow> real \<Rightarrow> Vector2 option" where
  "Vector2_lerp a b t =
     do {
       let t1 = guard t 0 1;
       let v = a;
       dx \<leftarrow> double_sub (x b) (x a);
       mx \<leftarrow> double_mul dx t1;
       vx \<leftarrow> double_add (x v) mx;
       let v1 = v\<lparr>x := vx\<rparr>;
       dy \<leftarrow> double_sub (y b) (y a);
       my \<leftarrow> double_mul dy t1;
       vy \<leftarrow> double_add (y v1) my;
       let v2 = v1\<lparr>y := vy\<rparr>;
       Some v2 }"

subsection \<open>Pose2D (pose\_2D.h)\<close>

record Pose2D = Vector2 +
  theta :: real

text \<open>The constructors \<open>Pose2D()\<close>, \<open>Pose2D(_x, _y, _theta)\<close> and \<open>Pose2D(_x, _y)\<close>;
  a field without initialiser keeps its default \<open>0\<close>.\<close>

definition Pose2D_default :: Pose2D where
  "Pose2D_default = \<lparr>x = 0, y = 0, theta = 0\<rparr>"

definition Pose2D_xyt :: "real \<Rightarrow> real \<Rightarrow> real \<Rightarrow> Pose2D" where
  "Pose2D_xyt a b c = \<lparr>x = a, y = b, theta = c\<rparr>"

definition Pose2D_xy :: "real \<Rightarrow> real \<Rightarrow> Pose2D" where
  "Pose2D_xy a b = \<lparr>x = a, y = b, theta = 0\<rparr>"

text \<open>
  \<^verbatim>\<open>void rotate(T angle) { T tmp_x = x; T tmp_y = y;
                          x = tmp_x * cos(angle) - tmp_y * sin(angle);
                          y = tmp_x * sin(angle) + tmp_y * cos(angle); }\<close>
\<close>

definition Pose2D_rotate :: "Pose2D \<Rightarrow> real \<Rightarrow> Pose2D" where
  "Pose2D_rotate p angle =
     (let tmp_x = x p;
          tmp_y = y p;
          p1 = p\<lparr>x := tmp_x * cos angle - tmp_y * sin angle\<rparr>;
          p2 = p1\<lparr>y := tmp_x * sin angle + tmp_y * cos angle\<rparr>
      in p2)"

definition Pose2D_sqrMagnitude :: "Pose2D \<Rightarrow> real" where
  "Pose2D_sqrMagnitude p = x p * x p + y p * y p"

definition Pose2D_magnitude :: "Pose2D \<Rightarrow> real" where
  "Pose2D_magnitude p = sqrt (Pose2D_sqrMagnitude p)"

text \<open>The operators: unary \<open>-\<close>, binary \<open>+\<close>, \<open>-\<close>, \<open>* s\<close>, \<open>/ s\<close>.\<close>

definition Pose2D_uminus :: "Pose2D \<Rightarrow> Pose2D" where
  "Pose2D_uminus p = \<lparr>x = - x p, y = - y p, theta = - theta p\<rparr>"

definition Pose2D_plus :: "Pose2D \<Rightarrow> Pose2D \<Rightarrow> Pose2D" where
  "Pose2D_plus p v = \<lparr>x = x p + x v, y = y p + y v, theta = theta p + theta v\<rparr>"

definition Pose2D_minus :: "Pose2D \<Rightarrow> Pose2D \<Rightarrow> Pose2D" where
  "Pose2D_minus p v = \<lparr>x = x p - x v, y = y p - y v, theta = theta p - theta v\<rparr>"

definition Pose2D_times :: "Pose2D \<Rightarrow> real \<Rightarrow> Pose2D" where
  "Pose2D_times p s = \<lparr>x = x p * s, y = y p * s, theta = theta p * s\<rparr>"

definition Pose2D_divide :: "Pose2D \<Rightarrow> real \<Rightarrow> Pose2D option" where
  "Pose2D_divide p s =
     do { a \<leftarrow> fdiv (x p) s; b \<leftarrow> fdiv (y p) s; c \<leftarrow> fdiv (theta p) s;
          Some \<lparr>x = a, y = b, theta = c\<rparr> }"

text \<open>The compound assignments \<open>+=\<close>, \<open>-=\<close>, \<open>*=\<close>, \<open>/=\<close>: the receiver, updated
  field by field.\<close>

definition Pose2D_plus_assign :: "Pose2D \<Rightarrow> Pose2D \<Rightarrow> Pose2D" where
  "Pose2D_plus_assign p v =
     (let p1 = p\<lparr>x := x p + x v\<rparr>;
          p2 = p1\<lparr>y := y p1 + y v\<rparr>;
          p3 = p2\<lparr>theta := theta p2 + theta v\<rparr>
      in p3)"

definition Pose2D_minus_assign :: "Pose2D \<Rightarrow> Pose2D \<Rightarrow> Pose2D" where
  "Pose2D_minus_assign p v =
     (let p1 = p\<lparr>x := x p - x v\<rparr>;
          p2 = p1\<lparr>y := y p1 - y v\<rparr>;
          p3 = p2\<lparr>theta := theta p2 - theta v\<rparr>
      in p3)"

definition Pose2D_times_assign :: "Pose2D \<Rightarrow> real \<Rightarrow> Pose2D" where
  "Pose2D_times_assign p s =
     (let p1 = p\<lparr>x := x p * s\<rparr>;
          p2 = p1\<lparr>y := y p1 * s\<rparr>;
          p3 = p2\<lparr>theta := theta p2 * s\<rparr>
      in p3)"

definition Pose2D_divide_assign :: "Pose2D \<Rightarrow> real \<Rightarrow> Pose2D option" where
  "Pose2D_divide_assign p s =
     do { a \<leftarrow> fdiv (x p) s;
          let p1 = p\<lparr>x := a\<rparr>;
          b \<leftarrow> fdiv (y p1) s;
          let p2 = p1\<lparr>y := b\<rparr>;
          c \<leftarrow> fdiv (theta p2) s;
          Some (p2\<lparr>theta := c\<rparr>) }"

text \<open>
  \<^verbatim>\<open>bool operator==(const Pose2D &v) const
  { return ((x == v.x) && (y == v.y) && (theta == v.y)); }\<close>
  and \<open>operator!=\<close>, the negation of the same expression.
\<close>

definition Pose2D_eq :: "Pose2D \<Rightarrow> Pose2D \<Rightarrow> bool" where
  "Pose2D_eq p v = ((x p = x v) \<and> (y p = y v) \<and> (theta p = y v))"

definition Pose2D_neq :: "Pose2D \<Rightarrow> Pose2D \<Rightarrow> bool" where
  "Pose2D_neq p v = (\<not> ((x p = x v) \<and> (y p = y v) \<and> (theta p = y v)))"

text \<open>The static pairwise operators act on \<open>x\<close> and \<open>y\<close> only.\<close>

definition Pose2D_getDot :: "Pose2D \<Rightarrow> Pose2D \<Rightarrow> real" where
  "Pose2D_getDot a b = x a * x b + y a * y b"

definition Pose2D_getCross :: "Pose2D \<Rightarrow> Pose2D \<Rightarrow> real" where
  "Pose2D_getCross a b = x a * y b - y a * x b"

definition Pose2D_getDistance :: "Pose2D \<Rightarrow> Pose2D \<Rightarrow> real" where
  "Pose2D_getDistance a b = (let v = Pose2D_minus b a in Pose2D_magnitude v)"

text \<open>\<open>Pose2D::lerp\<close>: as \<open>Vector2::lerp\<close>, with a third statement
  \<^verbatim>\<open>v.theta += (b.theta - a.theta) * t;\<close>\<close>

definition Pose2D_lerp :: "Pose2D \<Rightarrow> Pose2D \<Rightarrow> real \<Rightarrow> Pose2D option" where
  "Pose2D_lerp a b t =
     do {
       let t1 = guard t 0 1;
       let v = a;
       dx \<leftarrow> double_sub (x b) (x a);
       mx \<leftarrow> double_mul dx t1;
       vx \<leftarrow> double_add (x v) mx;
       let v1 = v\<lparr>x := vx\<rparr>;
       dy \<leftarrow> double_sub (y b) (y a);
       my \<leftarrow> double_mul dy t1;
       vy \<leftarrow> double_add (y v1) my;
       let v2 = v1\<lparr>y := vy\<rparr>;
       dt \<leftarrow> double_sub (theta b) (theta a);
       mt \<leftarrow> double_mul dt t1;
       vt \<leftarrow> double_add (theta v2) mt;
       let v3 = v2\<lparr>theta := vt\<rparr>;
       Some v3 }"

subsection \<open>Line2D (line\_2D.h)\<close>

record Line2D =
  start :: Pose2D
  end_pt :: Pose2D

text \<open>\<^verbatim>\<open>constexpr static T eps = 1e-10;\<close>\<close>

definition Line2D_eps :: real where
  "Line2D_eps = 1 / 10 ^ 10"

text \<open>The default constructor and the four \<open>set\<close> overloads on coordinates and poses;
  the four-coordinate \<open>set\<close> leaves both \<open>theta\<close> fields as they are.\<close>

definition Line2D_default :: Line2D where
  "Line2D_default = \<lparr>start = Pose2D_default, end_pt = Pose2D_default\<rparr>"

definition Line2D_set6 :: "Line2D \<Rightarrow> real \<Rightarrow> real \<Rightarrow> real \<Rightarrow> real \<Rightarrow> real \<Rightarrow> real \<Rightarrow> Line2D" where
  "Line2D_set6 l x1 y1 theta1 x2 y2 theta2 =
     l\<lparr>start := (start l)\<lparr>x := x1, y := y1, theta := theta1\<rparr>,
       end_pt := (end_pt l)\<lparr>x := x2, y := y2, theta := theta2\<rparr>\<rparr>"

definition Line2D_set4 :: "Line2D \<Rightarrow> real \<Rightarrow> real \<Rightarrow> real \<Rightarrow> real \<Rightarrow> Line2D" where
  "Line2D_set4 l x1 y1 x2 y2 =
     l\<lparr>start := (start l)\<lparr>x := x1, y := y1\<rparr>,
       end_pt := (end_pt l)\<lparr>x := x2, y := y2\<rparr>\<rparr>"

definition Line2D_set_poses :: "Line2D \<Rightarrow> Pose2D \<Rightarrow> Pose2D \<Rightarrow> Line2D" where
  "Line2D_set_poses l s e = l\<lparr>start := s, end_pt := e\<rparr>"

text \<open>The constructors \<open>Line2D(x1, y1, x2, y2)\<close> and \<open>Line2D(_start, _end)\<close> call
  \<open>set\<close> on the default-initialised members.\<close>

definition Line2D_xy :: "real \<Rightarrow> real \<Rightarrow> real \<Rightarrow> real \<Rightarrow> Line2D" where
  "Line2D_xy x1 y1 x2 y2 = Line2D_set4 Line2D_default x1 y1 x2 y2"

definition Line2D_poses :: "Pose2D \<Rightarrow> Pose2D \<Rightarrow> Line2D" where
  "Line2D_poses s e = Line2D_set_poses Line2D_default s e"

text \<open>\<^verbatim>\<open>return std::abs(Pose2D<T>::getCross(end-start, p-start)) < eps;\<close>\<close>

definition Line2D_isPointOnLine :: "Line2D \<Rightarrow> Pose2D \<Rightarrow> bool" where
  "Line2D_isPointOnLine l p =
     (\<bar>Pose2D_getCross (Pose2D_minus (end_pt l) (start l)) (Pose2D_minus p (start l))\<bar> < Line2D_eps)"

text \<open>\<open>isPointOnLineWithinRange\<close>: the local \<open>result\<close> starts as true and is set to false by
  the test of each axis in turn.\<close>

definition Line2D_isPointOnLineWithinRange :: "Line2D \<Rightarrow> Pose2D \<Rightarrow> bool" where
  "Line2D_isPointOnLineWithinRange l p =
     (if Line2D_isPointOnLine l p then
        (let result = True;
             x_min = min (x (start l)) (x (end_pt l));
             x_max = max (x (start l)) (x (end_pt l));
             y_min = min (y (start l)) (y (end_pt l));
             y_max = max (y (start l)) (y (end_pt l));
             result1 =
               (if \<bar>x_max - x_min\<bar> < Line2D_eps
                then (if \<bar>x_max - x p\<bar> > Line2D_eps then False else result)
                else (if \<not> (x_min < x p \<and> x p < x_max) then False else result));
             result2 =
               (if \<bar>y_max - y_min\<bar> < Line2D_eps
                then (if \<bar>y_max - y p\<bar> > Line2D_eps then False else result1)
                else (if \<not> (y_min < y p \<and> y p < y_max) then False else result1))
         in result2)
      else False)"

text \<open>
  \<open>getIntersection\<close>. In \<open>line1.start + a * c1 / c2\<close> the operators associate as
  \<open>line1.start + ((a * c1) / c2)\<close>.
\<close>

definition Line2D_getIntersection :: "Line2D \<Rightarrow> Line2D \<Rightarrow> (bool \<times> Pose2D) option" where
  "Line2D_getIntersection line1 line2 =
     (if \<bar>Pose2D_getCross (Pose2D_minus (end_pt line1) (start line1))
                          (Pose2D_minus (end_pt line2) (start line2))\<bar> > Line2D_eps
      then do {
        let a = Pose2D_minus (end_pt line1) (start line1);
        let b = Pose2D_minus (end_pt line2) (start line2);
        q \<leftarrow> Pose2D_divide
               (Pose2D_times a (Pose2D_getCross b (Pose2D_minus (start line2) (start line1))))
               (Pose2D_getCross b a);
        let intersection = Pose2D_plus (start line1) q;
        Some (True, intersection) }
      else Some (False, Pose2D_xyt 0 0 0))"

definition Line2D_getIntersectionWithinRange :: "Line2D \<Rightarrow> Line2D \<Rightarrow> (bool \<times> Pose2D) option" where
  "Line2D_getIntersectionWithinRange line1 line2 =
     do {
       (is_intersected, intersection) \<leftarrow> Line2D_getIntersection line1 line2;
       if is_intersected
       then Some (Line2D_isPointOnLineWithinRange line1 intersection
                  \<and> Line2D_isPointOnLineWithinRange line2 intersection, intersection)
       else Some (False, intersection) }"

text \<open>
  \<open>getDistanceFromPointToLine\<close> writes to \<open>std::cout\<close>:
  \<^verbatim>\<open>std::cout << "a:" << a <<  " b:" << b <<  " c:" << c << std::endl;\<close>
  The stream is modelled by the list of the items inserted into it so far (the formatting
  of a number is left to the stream); the function takes the stream and returns it with
  its result. In \<open>-(ey - sy) / (ex - sx) * sx + sy\<close> the unary minus binds first.
\<close>

datatype cout_item = Text string | Num real | Endl

type_synonym ostream = "cout_item list"

definition Line2D_getDistanceFromPointToLine ::
  "Pose2D \<Rightarrow> Line2D \<Rightarrow> ostream \<Rightarrow> (real \<times> ostream) option" where
  "Line2D_getDistanceFromPointToLine pose line cout =
     do {
       (a, b, c) \<leftarrow>
         (if \<bar>x (start line) - x (end_pt line)\<bar> > Line2D_eps
          then do {
            a \<leftarrow> fdiv (y (end_pt line) - y (start line)) (x (end_pt line) - x (start line));
            q \<leftarrow> fdiv (- (y (end_pt line) - y (start line))) (x (end_pt line) - x (start line));
            Some (a, - 1, q * x (start line) + y (start line)) }
          else Some (1, 0, - x (start line)));
       let cout1 = cout @ [Text ''a:'', Num a, Text '' b:'', Num b, Text '' c:'', Num c, Endl];
       distance \<leftarrow> fdiv \<bar>a * x pose + b * y pose + c\<bar> (sqrt (a * a + b * b));
       Some (distance, cout1) }"

definition Line2D_getDistanceFromPointToLineWithinRange :: "Pose2D \<Rightarrow> Line2D \<Rightarrow> real option" where
  "Line2D_getDistanceFromPointToLineWithinRange pose line =
     do {
       (a, b, c) \<leftarrow>
         (if \<bar>x (start line) - x (end_pt line)\<bar> > Line2D_eps
          then do {
            a \<leftarrow> fdiv (y (end_pt line) - y (start line)) (x (end_pt line) - x (start line));
            q \<leftarrow> fdiv (- (y (end_pt line) - y (start line))) (x (end_pt line) - x (start line));
            Some (a, - 1, q * x (start line) + y (start line)) }
          else Some (1, 0, - x (start line)));
       let p = x pose;
       let q = y pose;
       hx \<leftarrow> fdiv (p * (a * a + b * b) - a * (a * p + b * q + c)) (a * a + b * b);
       hy \<leftarrow> fdiv (q * (a * a + b * b) - b * (a * p + b * q + c)) (a * a + b * b);
       let h = Pose2D_default\<lparr>x := hx, y := hy\<rparr>;
       if Line2D_isPointOnLineWithinRange line h
       then fdiv \<bar>a * x pose + b * y pose + c\<bar> (sqrt (a * a + b * b))
       else Some (min (Pose2D_getDistance pose (start line)) (Pose2D_getDistance pose (end_pt line))) }"

section \<open>Supporting facts\<close>

lemma eps_pos: "0 < Line2D_eps"
  by (simp add: Line2D_eps_def)

lemma fdiv_Some: "b \<noteq> 0 \<Longrightarrow> fdiv a b = Some (a / b)"
  by (simp add: fdiv_def)

lemma Pose2D_divide_Some:
  "s \<noteq> 0 \<Longrightarrow> Pose2D_divide p s = Some \<lparr>x = x p / s, y = y p / s, theta = theta p / s\<rparr>"
  by (simp add: Pose2D_divide_def fdiv_def)

lemma getCross_swap: "Pose2D_getCross b a = - Pose2D_getCross a b"
  by (simp add: Pose2D_getCross_def)

lemma Pose2D_rotate_fields:
  "x (Pose2D_rotate p a) = x p * cos a - y p * sin a"
  "y (Pose2D_rotate p a) = x p * sin a + y p * cos a"
  "theta (Pose2D_rotate p a) = theta p"
  by (simp_all add: Pose2D_rotate_def Let_def)

lemma Pose2D_rotate_zero: "Pose2D_rotate p 0 = p"
  by (simp add: Pose2D_rotate_def Let_def)

lemma Pose2D_rotate_back: "Pose2D_rotate (Pose2D_rotate p a) (- a) = p"
proof -
  have cs: "c * (cos a * cos a) + c * (sin a * sin a) = c" for c :: real
    by (simp flip: distrib_left)
  have "x (Pose2D_rotate (Pose2D_rotate p a) (- a)) = x p"
    by (simp add: Pose2D_rotate_fields algebra_simps cs)
  moreover have "y (Pose2D_rotate (Pose2D_rotate p a) (- a)) = y p"
    by (simp add: Pose2D_rotate_fields algebra_simps cs)
  moreover have "theta (Pose2D_rotate (Pose2D_rotate p a) (- a)) = theta p"
    by (simp add: Pose2D_rotate_fields)
  ultimately show ?thesis
    by (intro Pose2D.equality) simp_all
qed

lemma Vector2_rotate_fields:
  "x (Vector2_rotate v a) = x v * cos a - y v * sin a"
  "y (Vector2_rotate v a) = (x v * cos a - y v * sin a) * sin a + y v * cos a"
  by (simp_all add: Vector2_rotate_def Let_def)

lemma Vector2_rotate_zero: "Vector2_rotate v 0 = v"
  by (simp add: Vector2_rotate_def Let_def)

lemma getIntersection_total:
  "\<exists>flag pt. Line2D_getIntersection line1 line2 = Some (flag, pt)"
proof (cases "\<bar>Pose2D_getCross (Pose2D_minus (end_pt line1) (start line1))
                                (Pose2D_minus (end_pt line2) (start line2))\<bar> > Line2D_eps")
  case True
  then have "Pose2D_getCross (Pose2D_minus (end_pt line2) (start line2))
                             (Pose2D_minus (end_pt line1) (start line1)) \<noteq> 0"
    using eps_pos getCross_swap [of "Pose2D_minus (end_pt line2) (start line2)"
                                    "Pose2D_minus (end_pt line1) (start line1)"]
    by linarith
  with True show ?thesis
    by (auto simp add: Line2D_getIntersection_def Pose2D_divide_Some Let_def)
next
  case False
  then show ?thesis
    by (auto simp add: Line2D_getIntersection_def)
qed

lemma axis_test:
  "lo \<le> hi \<Longrightarrow>
   (if \<bar>hi - lo\<bar> < Line2D_eps
    then (if \<bar>hi - c\<bar> > Line2D_eps then False else r)
    else (if \<not> (lo < c \<and> c < hi) then False else r))
   = (r \<and> ((hi - lo < Line2D_eps \<and> \<bar>c - hi\<bar> \<le> Line2D_eps)
           \<or> (Line2D_eps \<le> hi - lo \<and> lo < c \<and> c < hi)))"
  by auto

lemma isPointOnLineWithinRange_unfold:
  "Line2D_isPointOnLineWithinRange l p =
     (Line2D_isPointOnLine l p
      \<and> ((max (x (start l)) (x (end_pt l)) - min (x (start l)) (x (end_pt l)) < Line2D_eps
            \<and> \<bar>x p - max (x (start l)) (x (end_pt l))\<bar> \<le> Line2D_eps)
         \<or> (Line2D_eps \<le> max (x (start l)) (x (end_pt l)) - min (x (start l)) (x (end_pt l))
            \<and> min (x (start l)) (x (end_pt l)) < x p \<and> x p < max (x (start l)) (x (end_pt l))))
      \<and> ((max (y (start l)) (y (end_pt l)) - min (y (start l)) (y (end_pt l)) < Line2D_eps
            \<and> \<bar>y p - max (y (start l)) (y (end_pt l))\<bar> \<le> Line2D_eps)
         \<or> (Line2D_eps \<le> max (y (start l)) (y (end_pt l)) - min (y (start l)) (y (end_pt l))
            \<and> min (y (start l)) (y (end_pt l)) < y p \<and> y p < max (y (start l)) (y (end_pt l)))))"
proof -
  have lx: "min (x (start l)) (x (end_pt l)) \<le> max (x (start l)) (x (end_pt l))"
    by simp
  have ly: "min (y (start l)) (y (end_pt l)) \<le> max (y (start l)) (y (end_pt l))"
    by simp
  show ?thesis
    unfolding Line2D_isPointOnLineWithinRange_def Let_def
    by (simp only: axis_test [OF lx] axis_test [OF ly]) auto
qed

lemma endpoints_outside:
  assumes "Line2D_eps \<le> \<bar>x (start l) - x (end_pt l)\<bar> \<or> Line2D_eps \<le> \<bar>y (start l) - y (end_pt l)\<bar>"
  shows "\<not> Line2D_isPointOnLineWithinRange l (start l)"
    and "\<not> Line2D_isPointOnLineWithinRange l (end_pt l)"
  using assms eps_pos
  by (auto simp add: isPointOnLineWithinRange_unfold max_def min_def split: if_splits)

lemma coefficients_Some:
  "(if \<bar>sx - ex\<bar> > Line2D_eps
    then do {
      a \<leftarrow> fdiv (ey - sy) (ex - sx);
      q \<leftarrow> fdiv (- (ey - sy)) (ex - sx);
      Some (a, - 1, q * sx + sy) }
    else Some (1, 0, - sx))
   = Some (if \<bar>sx - ex\<bar> > Line2D_eps
           then ((ey - sy) / (ex - sx), - 1, - ((ey - sy) / (ex - sx)) * sx + sy)
           else (1, 0, - sx))"
proof (cases "\<bar>sx - ex\<bar> > Line2D_eps")
  case True
  then have "ex - sx \<noteq> 0"
    using eps_pos by linarith
  then have "- (ey - sy) / (ex - sx) = - ((ey - sy) / (ex - sx))"
    by (simp only: minus_divide_left)
  with True \<open>ex - sx \<noteq> 0\<close> show ?thesis
    by (simp only: fdiv_def if_True if_False bind.bind_lunit)
next
  case False
  then show ?thesis
    by simp
qed

lemma norm_coefficients_nonzero:
  "(if (c::bool) then (s, - 1, k) else (1, 0, m)) = (a, b, d) \<Longrightarrow> a * a + b * b \<noteq> (0::real)"
  by (auto split: if_splits simp add: add_nonneg_eq_0_iff)

lemma sqrt_100: "sqrt 100 = 10"
  by (rule real_sqrt_unique) simp_all

lemma sqrt_25: "sqrt 25 = 5"
  by (rule real_sqrt_unique) simp_all

lemma getDistanceFromPointToLine_cout_grows:
  "Line2D_getDistanceFromPointToLine pose line cout = Some (d, cout1) \<Longrightarrow>
   length cout1 = length cout + 7"
  unfolding Line2D_getDistanceFromPointToLine_def coefficients_Some
  by (auto simp add: Let_def split: if_splits prod.splits Option.bind_splits)

lemma guard_unit:
  "guard t 0 1 = (if t < 0 then 0 else if 1 < t then 1 else t)"
  by (simp add: guard_def)

lemma Pose2D_divide_assign_eq: "Pose2D_divide_assign p s = Pose2D_divide p s"
  by (simp add: Pose2D_divide_assign_def Pose2D_divide_def fdiv_def)

lemma round_ties_even_of_int: "round_ties_even (of_int n) = n"
  by (simp add: round_ties_even_def)

lemma powr_powi: "(2::real) powr (of_int k) = 2 powi k"
  by (simp add: powr_real_of_int' power_int_def)

lemma floor_log2_eq:
  assumes "2 powi k \<le> \<bar>r\<bar>" and "\<bar>r\<bar> < 2 powi (k + 1)"
  shows "\<lfloor>log 2 \<bar>r\<bar>\<rfloor> = k"
proof -
  have "0 < (2::real) powi k"
    by simp
  with assms(1) have pos: "0 < \<bar>r\<bar>"
    by linarith
  have "2 powr (of_int k) \<le> \<bar>r\<bar> \<and> \<bar>r\<bar> < 2 powr (of_int k + 1)"
    using assms powr_powi [of k] powr_powi [of "k + 1"] by simp
  then show ?thesis
    using floor_log_eq_powr_iff [of "\<bar>r\<bar>" 2 k] pos by simp
qed

lemma double_exponent_eq:
  "2 powi k \<le> \<bar>r\<bar> \<Longrightarrow> \<bar>r\<bar> < 2 powi (k + 1) \<Longrightarrow> - 1022 \<le> k \<Longrightarrow> double_exponent r = k"
  by (simp add: double_exponent_def floor_log2_eq)

lemma double_round_exact:
  assumes "r \<noteq> 0" and "r / 2 powi (double_exponent r - 52) = of_int n" and "\<bar>r\<bar> < 2 ^ 1024"
  shows "double_round r = Some r"
proof -
  have u: "(2::real) powi (double_exponent r - 52) \<noteq> 0"
    by simp
  have n: "round_ties_even (r / 2 powi (double_exponent r - 52)) = n"
    by (simp only: assms(2) round_ties_even_of_int)
  have "of_int n * 2 powi (double_exponent r - 52) = r"
    using assms(2) u by (metis nonzero_divide_eq_eq)
  then show ?thesis
    using assms(1,3) by (simp add: double_round_def Let_def n)
qed

lemma double_round_zero: "double_round 0 = Some 0"
  by (simp add: double_round_def)

lemma double_exponent_1e16: "double_exponent 10000000000000000 = 53"
  by (rule double_exponent_eq) simp_all

lemma double_exponent_1e16_pred: "double_exponent (- 9999999999999999) = 53"
  by (rule double_exponent_eq) simp_all

lemma double_exponent_1e16_neg: "double_exponent (- 10000000000000000) = 53"
  by (rule double_exponent_eq) simp_all

lemma double_round_1e16: "double_round 10000000000000000 = Some 10000000000000000"
  by (rule double_round_exact [where n = "5000000000000000"])
    (simp_all add: double_exponent_1e16)

lemma double_round_1e16_neg: "double_round (- 10000000000000000) = Some (- 10000000000000000)"
  by (rule double_round_exact [where n = "- 5000000000000000"])
    (simp_all add: double_exponent_1e16_neg)

lemma double_round_1e16_pred: "double_round (- 9999999999999999) = Some (- 10000000000000000)"
  by (simp add: double_round_def double_exponent_1e16_pred round_ties_even_def Let_def)

lemma exponent_small_int:
  assumes "m \<noteq> 0" and "\<bar>m\<bar> < 2 ^ 53"
  shows "double_exponent (of_int m) \<le> 52" and "- 1022 \<le> double_exponent (of_int m)"
proof -
  have pos: "0 < \<bar>real_of_int m\<bar>"
    using assms(1) by simp
  have "\<bar>real_of_int m\<bar> < 2 ^ 53"
    using assms(2) by (metis of_int_abs of_int_less_numeral_power_cancel_iff)
  then have "\<bar>real_of_int m\<bar> < 2 powr 53"
    by simp
  then have "log 2 \<bar>real_of_int m\<bar> < 53"
    using pos by (simp add: log_less_iff)
  then have "\<lfloor>log 2 \<bar>real_of_int m\<bar>\<rfloor> < 53"
    by (simp add: floor_less_iff)
  then show "double_exponent (of_int m) \<le> 52"
    by (simp add: double_exponent_def)
  show "- 1022 \<le> double_exponent (of_int m)"
    by (simp add: double_exponent_def)
qed

lemma is_double_of_int:
  assumes "\<bar>m\<bar> < 2 ^ 53"
  shows "is_double (of_int m)"
proof (cases "m = 0")
  case True
  then show ?thesis
    by (simp add: is_double_def double_round_def)
next
  case False
  define e where "e = double_exponent (of_int m)"
  have e: "e \<le> 52"
    using exponent_small_int(1) [OF False assms] by (simp add: e_def)
  have "real_of_int m / 2 powi (e - 52) = real_of_int m * 2 powi (52 - e)"
    by (simp add: power_int_diff field_simps)
  also have "\<dots> = real_of_int m * 2 ^ nat (52 - e)"
    using e by (simp add: power_int_def)
  also have "\<dots> = of_int (m * 2 ^ nat (52 - e))"
    by simp
  finally have q: "real_of_int m / 2 powi (double_exponent (of_int m) - 52) = of_int (m * 2 ^ nat (52 - e))"
    by (simp add: e_def)
  have "\<bar>real_of_int m\<bar> < 2 ^ 53"
    using assms by (metis of_int_abs of_int_less_numeral_power_cancel_iff)
  then have b: "\<bar>real_of_int m\<bar> < 2 ^ 1024"
    by (rule less_trans) simp
  show ?thesis
    unfolding is_double_def
    using False by (intro double_round_exact [OF _ q b]) simp
qed

lemma is_double_numeral: "\<bar>numeral k :: int\<bar> < 2 ^ 53 \<Longrightarrow> is_double (numeral k)"
  using is_double_of_int [of "numeral k"] by simp

lemma is_double_zero: "is_double 0"
  by (simp add: is_double_def double_round_zero)

lemma is_double_one: "is_double 1"
  using is_double_of_int [of 1] by simp

lemma Vector2_lerp_unfold:
  "Vector2_lerp a b t =
     do {
       dx \<leftarrow> double_sub (x b) (x a);
       mx \<leftarrow> double_mul dx (guard t 0 1);
       vx \<leftarrow> double_add (x a) mx;
       dy \<leftarrow> double_sub (y b) (y a);
       my \<leftarrow> double_mul dy (guard t 0 1);
       vy \<leftarrow> double_add (y a) my;
       Some \<lparr>x = vx, y = vy\<rparr> }"
  by (cases a) (simp add: Vector2_lerp_def Let_def)

lemma Pose2D_lerp_unfold:
  "Pose2D_lerp p q t =
     do {
       dx \<leftarrow> double_sub (x q) (x p);
       mx \<leftarrow> double_mul dx (guard t 0 1);
       vx \<leftarrow> double_add (x p) mx;
       dy \<leftarrow> double_sub (y q) (y p);
       my \<leftarrow> double_mul dy (guard t 0 1);
       vy \<leftarrow> double_add (y p) my;
       dt \<leftarrow> double_sub (theta q) (theta p);
       mt \<leftarrow> double_mul dt (guard t 0 1);
       vt \<leftarrow> double_add (theta p) mt;
       Some \<lparr>x = vx, y = vy, theta = vt\<rparr> }"
  by (cases p) (simp add: Pose2D_lerp_def Let_def)

lemma lerp_field_at_0:
  assumes "is_double a" and "double_sub b a \<noteq> None"
  shows "do { d \<leftarrow> double_sub b a; m \<leftarrow> double_mul d 0; double_add a m } = Some a"
proof -
  obtain d where d: "double_sub b a = Some d"
    using assms(2) by blast
  show ?thesis
    using assms(1) by (simp add: d double_mul_def double_add_def double_round_zero is_double_def)
qed

lemma lerp_field_at_1:
  assumes "is_double b" and "is_double (b - a)"
  shows "do { d \<leftarrow> double_sub b a; m \<leftarrow> double_mul d 1; double_add a m } = Some b"
  using assms by (simp add: double_sub_def double_mul_def double_add_def is_double_def)

section \<open>The properties of the specification\<close>

text \<open>
  C1. The claim: \<open>p == q\<close> holds iff the three fields agree pairwise, \<open>!=\<close> is its
  negation, and a pose rebuilt from its own fields equals the pose. The operators compare
  the receiver's \<open>theta\<close> with the argument's \<open>y\<close>: the poses \<open>(0, 0, 0)\<close> and
  \<open>(0, 0, 1)\<close> differ in \<open>theta\<close> and are reported equal, and the pose \<open>(0, 1, 0)\<close>
  is reported different from its own reconstruction.
\<close>

theorem Pose2D_eq_compares_theta_with_y:
  "Pose2D_eq (Pose2D_xyt 0 0 0) (Pose2D_xyt 0 0 1) = True
   \<and> Pose2D_neq (Pose2D_xyt 0 0 0) (Pose2D_xyt 0 0 1) = False
   \<and> theta (Pose2D_xyt 0 0 0) \<noteq> theta (Pose2D_xyt 0 0 1)
   \<and> Pose2D_eq (Pose2D_xyt (x (Pose2D_xyt 0 1 0)) (y (Pose2D_xyt 0 1 0)) (theta (Pose2D_xyt 0 1 0)))
        (Pose2D_xyt 0 1 0) = False
   \<and> Pose2D_neq (Pose2D_xyt (x (Pose2D_xyt 0 1 0)) (y (Pose2D_xyt 0 1 0)) (theta (Pose2D_xyt 0 1 0)))
        (Pose2D_xyt 0 1 0) = True"
  by (simp add: Pose2D_eq_def Pose2D_neq_def Pose2D_xyt_def)

text \<open>
  C2. The claim: \<open>rotate(angle)\<close> computes both new components from the original
  \<open>x\<close> and \<open>y\<close>, for Vector2 and for Pose2D alike, so that rotating by \<open>a\<close> and then
  by \<open>-a\<close> restores the vector. Pose2D::rotate does (the lemmas above); Vector2::rotate
  computes \<open>y\<close> from the \<open>x\<close> it has just overwritten. Rotating \<open>(1, 0)\<close> by
  \<open>pi / 2\<close> gives \<open>(0, 0)\<close> where the rotation matrix gives \<open>(0, 1)\<close>, and rotating
  back by \<open>- pi / 2\<close> does not restore \<open>(1, 0)\<close>.
\<close>

theorem Vector2_rotate_reads_overwritten_x:
  "Vector2_rotate (Vector2_xy 1 0) (pi / 2) = Vector2_xy 0 0
   \<and> Vector2_xy (1 * cos (pi / 2) - 0 * sin (pi / 2)) (1 * sin (pi / 2) + 0 * cos (pi / 2)) = Vector2_xy 0 1
   \<and> Vector2_rotate (Vector2_rotate (Vector2_xy 1 0) (pi / 2)) (- (pi / 2)) = Vector2_xy 0 0
   \<and> Vector2_xy 0 0 \<noteq> Vector2_xy 0 1 \<and> Vector2_xy 0 0 \<noteq> Vector2_xy 1 0"
  by (simp add: Vector2_rotate_def Vector2_xy_def Let_def)

text \<open>
  C3. \<open>getIntersection\<close> returns \<open>(false, Pose2D(0, 0, 0))\<close> exactly when
  \<open>|getCross(a, b)| \<le> eps\<close> for the direction vectors \<open>a\<close> and \<open>b\<close>, and otherwise
  \<open>(true, line1.start + a * (getCross(b, line2.start - line1.start) / getCross(b, a)))\<close>.
  It always returns a value: the divisor \<open>getCross(b, a)\<close> is not zero where the division
  is made. The parallel segments \<open>(0,0)-(4,0)\<close> and \<open>(0,1)-(4,1)\<close> give the flag false.
\<close>

theorem getIntersection_parallel_or_point:
  "Line2D_getIntersection line1 line2 =
     (let a = Pose2D_minus (end_pt line1) (start line1);
          b = Pose2D_minus (end_pt line2) (start line2)
      in if \<bar>Pose2D_getCross a b\<bar> \<le> Line2D_eps
         then Some (False, Pose2D_xyt 0 0 0)
         else Some (True, Pose2D_plus (start line1)
                (Pose2D_times a (Pose2D_getCross b (Pose2D_minus (start line2) (start line1))
                                 / Pose2D_getCross b a))))
   \<and> (Line2D_getIntersection line1 line2 = Some (False, Pose2D_xyt 0 0 0))
       = (\<bar>Pose2D_getCross (Pose2D_minus (end_pt line1) (start line1))
                           (Pose2D_minus (end_pt line2) (start line2))\<bar> \<le> Line2D_eps)
   \<and> Line2D_getIntersection (Line2D_xy 0 0 4 0) (Line2D_xy 0 1 4 1) = Some (False, Pose2D_xyt 0 0 0)"
proof -
  let ?a = "Pose2D_minus (end_pt line1) (start line1)"
  let ?b = "Pose2D_minus (end_pt line2) (start line2)"
  have nz: "Pose2D_getCross ?b ?a \<noteq> 0" if "\<bar>Pose2D_getCross ?a ?b\<bar> > Line2D_eps"
    using that eps_pos getCross_swap [of ?b ?a] by linarith
  have main: "Line2D_getIntersection line1 line2 =
     (if \<bar>Pose2D_getCross ?a ?b\<bar> \<le> Line2D_eps
         then Some (False, Pose2D_xyt 0 0 0)
         else Some (True, Pose2D_plus (start line1)
                (Pose2D_times ?a (Pose2D_getCross ?b (Pose2D_minus (start line2) (start line1))
                                 / Pose2D_getCross ?b ?a))))"
  proof (cases "\<bar>Pose2D_getCross ?a ?b\<bar> > Line2D_eps")
    case True
    then show ?thesis
      using nz [OF True]
      by (simp add: Line2D_getIntersection_def Pose2D_divide_Some Pose2D_times_def Pose2D_plus_def Let_def)
  next
    case False
    then show ?thesis
      by (simp add: Line2D_getIntersection_def)
  qed
  have ex: "Line2D_getIntersection (Line2D_xy 0 0 4 0) (Line2D_xy 0 1 4 1) = Some (False, Pose2D_xyt 0 0 0)"
    by (simp add: Line2D_getIntersection_def Line2D_xy_def Line2D_set4_def Line2D_default_def
        Pose2D_default_def Pose2D_minus_def Pose2D_getCross_def Line2D_eps_def)
  show ?thesis
    using main ex by (simp add: Let_def)
qed

theorem getIntersection_parallel_or_point_witness:
  "Line2D_getIntersection (Line2D_xy 0 0 4 4) (Line2D_xy 0 4 4 0) = Some (True, Pose2D_xyt 2 2 0)
   \<and> Line2D_getIntersection (Line2D_xy 0 0 4 4) (Line2D_xy 0 4 4 0) \<noteq> Some (False, Pose2D_xyt 0 0 0)"
  using getIntersection_parallel_or_point [of "Line2D_xy 0 0 4 4" "Line2D_xy 0 4 4 0"]
  by (simp add: Line2D_xy_def Line2D_set4_def Line2D_default_def Pose2D_default_def
      Pose2D_minus_def Pose2D_plus_def Pose2D_times_def Pose2D_getCross_def Pose2D_xyt_def
      Line2D_eps_def Let_def)

text \<open>
  C4. \<open>getIntersectionWithinRange\<close> reports true exactly when \<open>getIntersection\<close>
  reports true and the point it computed passes \<open>isPointOnLineWithinRange\<close> on both
  lines; the point returned is the one of \<open>getIntersection\<close>. The segments
  \<open>(0,0)-(4,4)\<close> and \<open>(0,4)-(4,0)\<close> give true and the point \<open>(2, 2)\<close>.
\<close>

theorem getIntersectionWithinRange_refines:
  "(\<exists>flag pt. Line2D_getIntersection line1 line2 = Some (flag, pt)
      \<and> Line2D_getIntersectionWithinRange line1 line2 =
          Some (flag \<and> Line2D_isPointOnLineWithinRange line1 pt
                     \<and> Line2D_isPointOnLineWithinRange line2 pt, pt))
   \<and> Line2D_getIntersectionWithinRange (Line2D_xy 0 0 4 4) (Line2D_xy 0 4 4 0)
       = Some (True, Pose2D_xy 2 2)"
proof -
  obtain flag pt where g: "Line2D_getIntersection line1 line2 = Some (flag, pt)"
    using getIntersection_total by blast
  have a: "Line2D_getIntersectionWithinRange line1 line2 =
          Some (flag \<and> Line2D_isPointOnLineWithinRange line1 pt
                     \<and> Line2D_isPointOnLineWithinRange line2 pt, pt)"
    by (simp add: Line2D_getIntersectionWithinRange_def g)
  have i: "Line2D_getIntersection (Line2D_xy 0 0 4 4) (Line2D_xy 0 4 4 0) = Some (True, Pose2D_xy 2 2)"
    by (simp add: Line2D_getIntersection_def Line2D_xy_def Line2D_set4_def Line2D_default_def
        Pose2D_default_def Pose2D_minus_def Pose2D_plus_def Pose2D_times_def Pose2D_getCross_def
        Pose2D_xy_def Pose2D_divide_def fdiv_def Line2D_eps_def Let_def)
  have r1: "Line2D_isPointOnLineWithinRange (Line2D_xy 0 0 4 4) (Pose2D_xy 2 2)"
    by (simp add: Line2D_isPointOnLineWithinRange_def Line2D_isPointOnLine_def Line2D_xy_def
        Line2D_set4_def Line2D_default_def Pose2D_default_def Pose2D_minus_def
        Pose2D_getCross_def Pose2D_xy_def Line2D_eps_def Let_def)
  have r2: "Line2D_isPointOnLineWithinRange (Line2D_xy 0 4 4 0) (Pose2D_xy 2 2)"
    by (simp add: Line2D_isPointOnLineWithinRange_def Line2D_isPointOnLine_def Line2D_xy_def
        Line2D_set4_def Line2D_default_def Pose2D_default_def Pose2D_minus_def
        Pose2D_getCross_def Pose2D_xy_def Line2D_eps_def Let_def)
  have b: "Line2D_getIntersectionWithinRange (Line2D_xy 0 0 4 4) (Line2D_xy 0 4 4 0)
       = Some (True, Pose2D_xy 2 2)"
    by (simp add: Line2D_getIntersectionWithinRange_def i r1 r2)
  show ?thesis
    using g a b by blast
qed

theorem getIntersectionWithinRange_refines_witness:
  "Line2D_getIntersectionWithinRange (Line2D_xy 0 0 2 0) (Line2D_xy 1 1 1 5)
     = Some (False, Pose2D_xy 1 0)"
proof -
  have i: "Line2D_getIntersection (Line2D_xy 0 0 2 0) (Line2D_xy 1 1 1 5) = Some (True, Pose2D_xy 1 0)"
    by (simp add: Line2D_getIntersection_def Line2D_xy_def Line2D_set4_def Line2D_default_def
        Pose2D_default_def Pose2D_minus_def Pose2D_plus_def Pose2D_times_def Pose2D_getCross_def
        Pose2D_xy_def Pose2D_divide_def fdiv_def Line2D_eps_def Let_def)
  have r2: "\<not> Line2D_isPointOnLineWithinRange (Line2D_xy 1 1 1 5) (Pose2D_xy 1 0)"
    by (simp add: Line2D_isPointOnLineWithinRange_def Line2D_isPointOnLine_def Line2D_xy_def
        Line2D_set4_def Line2D_default_def Pose2D_default_def Pose2D_minus_def
        Pose2D_getCross_def Pose2D_xy_def Line2D_eps_def Let_def)
  show ?thesis
    using getIntersectionWithinRange_refines [of "Line2D_xy 0 0 2 0" "Line2D_xy 1 1 1 5"] i r2
    by auto
qed

text \<open>
  C5. \<open>isPointOnLineWithinRange(p)\<close> is true exactly when \<open>p\<close> is collinear
  (\<open>|getCross(end - start, p - start)| < eps\<close>) and, on each of the two axes on its own,
  either the extent \<open>max - min\<close> of the segment is below \<open>eps\<close> and the coordinate of
  \<open>p\<close> is within \<open>eps\<close> (inclusive) of the coordinate \<open>max\<close>, or the extent is at
  least \<open>eps\<close> and the coordinate lies strictly between \<open>min\<close> and \<open>max\<close>. So the
  two endpoints themselves fail the test as soon as one axis has an extent of at least
  \<open>eps\<close>.
\<close>

theorem isPointOnLineWithinRange_iff:
  "Line2D_isPointOnLineWithinRange l p =
     (\<bar>Pose2D_getCross (Pose2D_minus (end_pt l) (start l)) (Pose2D_minus p (start l))\<bar> < Line2D_eps
      \<and> ((max (x (start l)) (x (end_pt l)) - min (x (start l)) (x (end_pt l)) < Line2D_eps
            \<and> \<bar>x p - max (x (start l)) (x (end_pt l))\<bar> \<le> Line2D_eps)
         \<or> (Line2D_eps \<le> max (x (start l)) (x (end_pt l)) - min (x (start l)) (x (end_pt l))
            \<and> min (x (start l)) (x (end_pt l)) < x p \<and> x p < max (x (start l)) (x (end_pt l))))
      \<and> ((max (y (start l)) (y (end_pt l)) - min (y (start l)) (y (end_pt l)) < Line2D_eps
            \<and> \<bar>y p - max (y (start l)) (y (end_pt l))\<bar> \<le> Line2D_eps)
         \<or> (Line2D_eps \<le> max (y (start l)) (y (end_pt l)) - min (y (start l)) (y (end_pt l))
            \<and> min (y (start l)) (y (end_pt l)) < y p \<and> y p < max (y (start l)) (y (end_pt l)))))
   \<and> (Line2D_eps \<le> \<bar>x (start l) - x (end_pt l)\<bar> \<or> Line2D_eps \<le> \<bar>y (start l) - y (end_pt l)\<bar>
        \<longrightarrow> \<not> Line2D_isPointOnLineWithinRange l (start l)
          \<and> \<not> Line2D_isPointOnLineWithinRange l (end_pt l))"
  using isPointOnLineWithinRange_unfold [of l p] endpoints_outside [of l]
  by (simp add: Line2D_isPointOnLine_def)

theorem isPointOnLineWithinRange_iff_witness:
  "Line2D_isPointOnLineWithinRange (Line2D_xy 1 0 1 5) (Pose2D_xy 1 1)
   \<and> \<not> Line2D_isPointOnLineWithinRange (Line2D_xy 1 0 1 5) (Pose2D_xy 1 5)
   \<and> \<not> Line2D_isPointOnLineWithinRange (Line2D_xy 1 0 1 5) (start (Line2D_xy 1 0 1 5))
   \<and> \<not> Line2D_isPointOnLineWithinRange (Line2D_xy 1 0 1 5) (end_pt (Line2D_xy 1 0 1 5))
   \<and> Line2D_eps \<le> \<bar>y (start (Line2D_xy 1 0 1 5)) - y (end_pt (Line2D_xy 1 0 1 5))\<bar>"
  using isPointOnLineWithinRange_iff [of "Line2D_xy 1 0 1 5" "Pose2D_xy 1 1"]
    isPointOnLineWithinRange_iff [of "Line2D_xy 1 0 1 5" "Pose2D_xy 1 5"]
  by (simp add: Line2D_xy_def Line2D_set4_def Line2D_default_def Pose2D_default_def
      Pose2D_minus_def Pose2D_getCross_def Pose2D_xy_def Line2D_eps_def)

text \<open>
  C6. \<open>getDistanceFromPointToLineWithinRange(p, L)\<close> computes the foot \<open>h\<close> of the
  perpendicular from \<open>p\<close> by the projection formula on the coefficients \<open>a\<close>, \<open>b\<close>,
  \<open>c\<close> of the line; when \<open>h\<close> passes \<open>L.isPointOnLineWithinRange\<close> it returns the
  perpendicular distance \<open>|a p.x + b p.y + c| / sqrt(a a + b b)\<close>, otherwise the smaller
  of the distances from \<open>p\<close> to the two endpoints. For the vertical segment
  \<open>(1,0)-(1,5)\<close> the point \<open>(1, 1)\<close> gives \<open>0\<close> and the point \<open>(1, 10)\<close> gives \<open>5\<close>.
\<close>

theorem getDistanceFromPointToLineWithinRange_formula:
  "Line2D_getDistanceFromPointToLineWithinRange pose line =
     (let (a, b, c) =
            (if \<bar>x (start line) - x (end_pt line)\<bar> > Line2D_eps
             then ((y (end_pt line) - y (start line)) / (x (end_pt line) - x (start line)),
                   - 1,
                   - ((y (end_pt line) - y (start line)) / (x (end_pt line) - x (start line)))
                     * x (start line) + y (start line))
             else (1, 0, - x (start line)));
          h = \<lparr>x = (x pose * (a * a + b * b) - a * (a * x pose + b * y pose + c)) / (a * a + b * b),
               y = (y pose * (a * a + b * b) - b * (a * x pose + b * y pose + c)) / (a * a + b * b),
               theta = 0\<rparr>
      in if Line2D_isPointOnLineWithinRange line h
         then Some (\<bar>a * x pose + b * y pose + c\<bar> / sqrt (a * a + b * b))
         else Some (min (Pose2D_getDistance pose (start line))
                        (Pose2D_getDistance pose (end_pt line))))
   \<and> Line2D_getDistanceFromPointToLineWithinRange (Pose2D_xy 1 1) (Line2D_xy 1 0 1 5) = Some 0
   \<and> Line2D_getDistanceFromPointToLineWithinRange (Pose2D_xy 1 10) (Line2D_xy 1 0 1 5) = Some 5"
proof -
  obtain a b c :: real where abc:
    "(if \<bar>x (start line) - x (end_pt line)\<bar> > Line2D_eps
      then ((y (end_pt line) - y (start line)) / (x (end_pt line) - x (start line)),
            - 1,
            - ((y (end_pt line) - y (start line)) / (x (end_pt line) - x (start line)))
              * x (start line) + y (start line))
      else (1, 0, - x (start line))) = (a, b, c)"
    by (metis prod_cases3)
  have nz: "a * a + b * b \<noteq> 0"
    using norm_coefficients_nonzero [OF abc] .
  then have nzs: "sqrt (a * a + b * b) \<noteq> 0"
    by simp
  have main: "Line2D_getDistanceFromPointToLineWithinRange pose line =
     (let h = \<lparr>x = (x pose * (a * a + b * b) - a * (a * x pose + b * y pose + c)) / (a * a + b * b),
               y = (y pose * (a * a + b * b) - b * (a * x pose + b * y pose + c)) / (a * a + b * b),
               theta = 0\<rparr>
      in if Line2D_isPointOnLineWithinRange line h
         then Some (\<bar>a * x pose + b * y pose + c\<bar> / sqrt (a * a + b * b))
         else Some (min (Pose2D_getDistance pose (start line))
                        (Pose2D_getDistance pose (end_pt line))))"
    unfolding Line2D_getDistanceFromPointToLineWithinRange_def coefficients_Some abc
    using nz nzs by (auto simp add: fdiv_def Pose2D_default_def Let_def)
  have e1: "Line2D_getDistanceFromPointToLineWithinRange (Pose2D_xy 1 1) (Line2D_xy 1 0 1 5) = Some 0"
    by (simp add: Line2D_getDistanceFromPointToLineWithinRange_def
        Line2D_isPointOnLineWithinRange_def Line2D_isPointOnLine_def
        Line2D_xy_def Line2D_set4_def Line2D_default_def Pose2D_default_def Pose2D_xy_def
        Pose2D_minus_def Pose2D_getCross_def Line2D_eps_def fdiv_def Let_def)
  have e2: "Line2D_getDistanceFromPointToLineWithinRange (Pose2D_xy 1 10) (Line2D_xy 1 0 1 5) = Some 5"
    by (simp add: Line2D_getDistanceFromPointToLineWithinRange_def
        Line2D_isPointOnLineWithinRange_def Line2D_isPointOnLine_def
        Line2D_xy_def Line2D_set4_def Line2D_default_def Pose2D_default_def Pose2D_xy_def
        Pose2D_minus_def Pose2D_getCross_def Pose2D_getDistance_def Pose2D_magnitude_def
        Pose2D_sqrMagnitude_def Line2D_eps_def fdiv_def Let_def sqrt_100 sqrt_25)
  show ?thesis
    using main e1 e2 by (simp add: abc Let_def)
qed

theorem getDistanceFromPointToLineWithinRange_formula_witness:
  "Line2D_getDistanceFromPointToLineWithinRange (Pose2D_xy 2 5) (Line2D_xy 0 0 4 0) = Some 5
   \<and> Line2D_isPointOnLineWithinRange (Line2D_xy 0 0 4 0) (Pose2D_xy 2 0)"
proof -
  have r: "Line2D_isPointOnLineWithinRange (Line2D_xy 0 0 4 0) \<lparr>x = 2, y = 0, theta = 0\<rparr>"
    by (simp add: Line2D_isPointOnLineWithinRange_def Line2D_isPointOnLine_def Line2D_xy_def
        Line2D_set4_def Line2D_default_def Pose2D_default_def Pose2D_minus_def
        Pose2D_getCross_def Line2D_eps_def Let_def)
  have s: "start (Line2D_xy 0 0 4 0) = \<lparr>x = 0, y = 0, theta = 0\<rparr>"
          "end_pt (Line2D_xy 0 0 4 0) = \<lparr>x = 4, y = 0, theta = 0\<rparr>"
    by (simp_all add: Line2D_xy_def Line2D_set4_def Line2D_default_def Pose2D_default_def)
  show ?thesis
    using getDistanceFromPointToLineWithinRange_formula [where pose = "Pose2D_xy 2 5" and line = "Line2D_xy 0 0 4 0"] r
    by (simp add: s Pose2D_xy_def Line2D_eps_def)
qed

text \<open>
  C7. \<open>getDistanceFromPointToLine(p, L)\<close> returns \<open>|a p.x + b p.y + c| / sqrt(a a + b b)\<close>
  with \<open>a = slope\<close>, \<open>b = -1\<close>, \<open>c = - slope L.start.x + L.start.y\<close> when
  \<open>|L.start.x - L.end.x| > eps\<close>, and \<open>(a, b, c) = (1, 0, - L.start.x)\<close> otherwise. The
  slope is divided out only under that test, where its divisor exceeds \<open>eps\<close> in
  magnitude; no division of the function has a zero divisor, so it always returns a
  number. The vertical line \<open>(3,0)-(3,5)\<close> and the point \<open>(7, 2)\<close> give \<open>4\<close>.
\<close>

theorem getDistanceFromPointToLine_formula:
  "map_option fst (Line2D_getDistanceFromPointToLine pose line cout) =
     (let (a, b, c) =
            (if \<bar>x (start line) - x (end_pt line)\<bar> > Line2D_eps
             then ((y (end_pt line) - y (start line)) / (x (end_pt line) - x (start line)),
                   - 1,
                   - ((y (end_pt line) - y (start line)) / (x (end_pt line) - x (start line)))
                     * x (start line) + y (start line))
             else (1, 0, - x (start line)))
      in Some (\<bar>a * x pose + b * y pose + c\<bar> / sqrt (a * a + b * b)))
   \<and> (\<bar>x (start line) - x (end_pt line)\<bar> > Line2D_eps \<longrightarrow>
        Line2D_eps < \<bar>x (end_pt line) - x (start line)\<bar>
        \<and> fdiv (y (end_pt line) - y (start line)) (x (end_pt line) - x (start line))
            = Some ((y (end_pt line) - y (start line)) / (x (end_pt line) - x (start line))))
   \<and> map_option fst (Line2D_getDistanceFromPointToLine (Pose2D_xy 7 2) (Line2D_xy 3 0 3 5) cout)
       = Some 4"
proof -
  obtain a b c :: real where abc:
    "(if \<bar>x (start line) - x (end_pt line)\<bar> > Line2D_eps
      then ((y (end_pt line) - y (start line)) / (x (end_pt line) - x (start line)),
            - 1,
            - ((y (end_pt line) - y (start line)) / (x (end_pt line) - x (start line)))
              * x (start line) + y (start line))
      else (1, 0, - x (start line))) = (a, b, c)"
    by (metis prod_cases3)
  have nz: "sqrt (a * a + b * b) \<noteq> 0"
    using norm_coefficients_nonzero [OF abc] by simp
  have main: "map_option fst (Line2D_getDistanceFromPointToLine pose line cout) =
      Some (\<bar>a * x pose + b * y pose + c\<bar> / sqrt (a * a + b * b))"
    unfolding Line2D_getDistanceFromPointToLine_def coefficients_Some abc
    using nz by (simp add: fdiv_def)
  have slope: "Line2D_eps < \<bar>x (end_pt line) - x (start line)\<bar>
        \<and> fdiv (y (end_pt line) - y (start line)) (x (end_pt line) - x (start line))
            = Some ((y (end_pt line) - y (start line)) / (x (end_pt line) - x (start line)))"
    if "\<bar>x (start line) - x (end_pt line)\<bar> > Line2D_eps"
    using that eps_pos by (auto simp add: fdiv_def)
  have ex: "map_option fst (Line2D_getDistanceFromPointToLine (Pose2D_xy 7 2) (Line2D_xy 3 0 3 5) cout)
       = Some 4"
    by (simp add: Line2D_getDistanceFromPointToLine_def Line2D_xy_def Line2D_set4_def
        Line2D_default_def Pose2D_default_def Pose2D_xy_def Line2D_eps_def fdiv_def)
  show ?thesis
    using main slope ex by (simp add: abc)
qed

theorem getDistanceFromPointToLine_formula_witness:
  "\<bar>x (start (Line2D_xy 0 0 4 0)) - x (end_pt (Line2D_xy 0 0 4 0))\<bar> > Line2D_eps
   \<and> fdiv (y (end_pt (Line2D_xy 0 0 4 0)) - y (start (Line2D_xy 0 0 4 0)))
           (x (end_pt (Line2D_xy 0 0 4 0)) - x (start (Line2D_xy 0 0 4 0))) = Some 0
   \<and> map_option fst (Line2D_getDistanceFromPointToLine (Pose2D_xy 1 3) (Line2D_xy 0 0 4 0) []) = Some 3"
  using getDistanceFromPointToLine_formula [where pose = "Pose2D_xy 1 3" and line = "Line2D_xy 0 0 4 0" and cout = "[]"]
  by (simp add: Line2D_xy_def Line2D_set4_def Line2D_default_def Pose2D_default_def
      Pose2D_xy_def Line2D_eps_def)

text \<open>
  C8. The claim: \<open>lerp\<close> clamps \<open>t\<close> into \<open>[0, 1]\<close> and interpolates each field as
  \<open>a + (b - a) t\<close>, hence \<open>lerp(a, b, 1) == b\<close> and a parameter above \<open>1\<close> gives \<open>b\<close>.
  The code computes \<open>a + (b - a) t\<close> in \<open>T\<close>, rounding the difference, the product and
  the sum. For the doubles \<open>a.x = 10 ^ 16\<close> and \<open>b.x = 1\<close> the difference \<open>1 - 10 ^ 16\<close>
  is a tie between two doubles and rounds to \<open>- 10 ^ 16\<close>, so that
  \<open>lerp((10 ^ 16, 0, 0), (1, 0, 0), 1)\<close> is \<open>(0, 0, 0)\<close> and not \<open>b\<close>; the same for
  Vector2 and the parameter \<open>2\<close>.
\<close>

theorem lerp_endpoint_counterexample:
  "Pose2D_lerp (Pose2D_xyt (10 ^ 16) 0 0) (Pose2D_xyt 1 0 0) 1 = Some (Pose2D_xyt 0 0 0)
   \<and> Pose2D_xyt 0 0 0 \<noteq> Pose2D_xyt 1 0 0
   \<and> Vector2_lerp (Vector2_xy (10 ^ 16) 0) (Vector2_xy 1 0) 2 = Some (Vector2_xy 0 0)
   \<and> Vector2_xy 0 0 \<noteq> Vector2_xy 1 0
   \<and> is_double (10 ^ 16) \<and> is_double 1 \<and> is_double 0"
  by (simp add: Pose2D_lerp_def Vector2_lerp_def guard_def double_sub_def double_mul_def
      double_add_def Pose2D_xyt_def Vector2_xy_def double_round_zero double_round_1e16
      double_round_1e16_neg double_round_1e16_pred is_double_def is_double_one [unfolded is_double_def])

text \<open>
  C8, as the code has it. \<open>Vector2::lerp\<close> and \<open>Pose2D::lerp\<close> first clamp \<open>t\<close> into
  \<open>[0, 1]\<close> with \<open>guard\<close> and then compute each field (\<open>x\<close>, \<open>y\<close>, and \<open>theta\<close> for a
  pose) as \<open>a + (b - a) t\<close> in the arithmetic of \<open>T\<close>: difference, product and sum, each
  rounded. A parameter outside \<open>[0, 1]\<close> gives the result of the clamped parameter \<open>0\<close>
  or \<open>1\<close>. \<open>lerp(a, b, 0) == a\<close> whenever the differences \<open>b - a\<close> of the fields are
  finite, and \<open>lerp(a, b, 1) == b\<close> whenever these differences are doubles themselves
  (computed without rounding), as in \<open>lerp((0,0), (10,0), 2) == (10,0)\<close>.
\<close>

theorem lerp_clamps_then_rounds:
  "guard t 0 1 = (if t < 0 then 0 else if 1 < t then 1 else t)
   \<and> 0 \<le> guard t 0 1 \<and> guard t 0 1 \<le> 1
   \<and> Vector2_lerp a b t =
       do {
         dx \<leftarrow> double_sub (x b) (x a);
         mx \<leftarrow> double_mul dx (guard t 0 1);
         vx \<leftarrow> double_add (x a) mx;
         dy \<leftarrow> double_sub (y b) (y a);
         my \<leftarrow> double_mul dy (guard t 0 1);
         vy \<leftarrow> double_add (y a) my;
         Some \<lparr>x = vx, y = vy\<rparr> }
   \<and> Pose2D_lerp p q t =
       do {
         dx \<leftarrow> double_sub (x q) (x p);
         mx \<leftarrow> double_mul dx (guard t 0 1);
         vx \<leftarrow> double_add (x p) mx;
         dy \<leftarrow> double_sub (y q) (y p);
         my \<leftarrow> double_mul dy (guard t 0 1);
         vy \<leftarrow> double_add (y p) my;
         dt \<leftarrow> double_sub (theta q) (theta p);
         mt \<leftarrow> double_mul dt (guard t 0 1);
         vt \<leftarrow> double_add (theta p) mt;
         Some \<lparr>x = vx, y = vy, theta = vt\<rparr> }
   \<and> (t \<le> 0 \<longrightarrow> Vector2_lerp a b t = Vector2_lerp a b 0 \<and> Pose2D_lerp p q t = Pose2D_lerp p q 0)
   \<and> (1 \<le> t \<longrightarrow> Vector2_lerp a b t = Vector2_lerp a b 1 \<and> Pose2D_lerp p q t = Pose2D_lerp p q 1)
   \<and> (is_double (x a) \<and> is_double (y a)
        \<and> double_sub (x b) (x a) \<noteq> None \<and> double_sub (y b) (y a) \<noteq> None
        \<longrightarrow> Vector2_lerp a b 0 = Some a)
   \<and> (is_double (x b) \<and> is_double (y b)
        \<and> is_double (x b - x a) \<and> is_double (y b - y a)
        \<longrightarrow> Vector2_lerp a b 1 = Some b)
   \<and> (is_double (x p) \<and> is_double (y p) \<and> is_double (theta p)
        \<and> double_sub (x q) (x p) \<noteq> None \<and> double_sub (y q) (y p) \<noteq> None
        \<and> double_sub (theta q) (theta p) \<noteq> None
        \<longrightarrow> Pose2D_lerp p q 0 = Some p)
   \<and> (is_double (x q) \<and> is_double (y q) \<and> is_double (theta q)
        \<and> is_double (x q - x p) \<and> is_double (y q - y p) \<and> is_double (theta q - theta p)
        \<longrightarrow> Pose2D_lerp p q 1 = Some q)
   \<and> Vector2_lerp (Vector2_xy 0 0) (Vector2_xy 10 0) 2 = Some (Vector2_xy 10 0)"
proof -
  have g: "guard t 0 1 = (if t < 0 then 0 else if 1 < t then 1 else t)"
    by (rule guard_unit)
  have g01: "0 \<le> guard t 0 1 \<and> guard t 0 1 \<le> 1"
    by (simp add: guard_unit)
  have g0: "guard 0 0 1 = 0" and g1: "guard 1 0 1 = 1"
    by (simp_all add: guard_def)
  have lo: "Vector2_lerp a b t = Vector2_lerp a b 0 \<and> Pose2D_lerp p q t = Pose2D_lerp p q 0"
    if "t \<le> 0"
  proof -
    have "guard t 0 1 = guard 0 0 1"
      using that by (simp add: guard_def)
    then show ?thesis
      by (simp only: Vector2_lerp_unfold Pose2D_lerp_unfold)
  qed
  have hi: "Vector2_lerp a b t = Vector2_lerp a b 1 \<and> Pose2D_lerp p q t = Pose2D_lerp p q 1"
    if "1 \<le> t"
  proof -
    have "guard t 0 1 = guard 1 0 1"
      using that by (simp add: guard_def)
    then show ?thesis
      by (simp only: Vector2_lerp_unfold Pose2D_lerp_unfold)
  qed
  have v0: "Vector2_lerp a b 0 = Some a"
    if "is_double (x a) \<and> is_double (y a)
        \<and> double_sub (x b) (x a) \<noteq> None \<and> double_sub (y b) (y a) \<noteq> None"
  proof -
    have fx: "do { d \<leftarrow> double_sub (x b) (x a); m \<leftarrow> double_mul d 0; double_add (x a) m } = Some (x a)"
      using that by (intro lerp_field_at_0) simp_all
    have fy: "do { d \<leftarrow> double_sub (y b) (y a); m \<leftarrow> double_mul d 0; double_add (y a) m } = Some (y a)"
      using that by (intro lerp_field_at_0) simp_all
    show ?thesis
      using fx fy by (cases a) (auto simp add: Vector2_lerp_unfold g0 split: Option.bind_splits)
  qed
  have v1: "Vector2_lerp a b 1 = Some b"
    if "is_double (x b) \<and> is_double (y b) \<and> is_double (x b - x a) \<and> is_double (y b - y a)"
  proof -
    have fx: "do { d \<leftarrow> double_sub (x b) (x a); m \<leftarrow> double_mul d 1; double_add (x a) m } = Some (x b)"
      using that by (intro lerp_field_at_1) simp_all
    have fy: "do { d \<leftarrow> double_sub (y b) (y a); m \<leftarrow> double_mul d 1; double_add (y a) m } = Some (y b)"
      using that by (intro lerp_field_at_1) simp_all
    show ?thesis
      using fx fy by (cases b) (auto simp add: Vector2_lerp_unfold g1 split: Option.bind_splits)
  qed
  have p0: "Pose2D_lerp p q 0 = Some p"
    if "is_double (x p) \<and> is_double (y p) \<and> is_double (theta p)
        \<and> double_sub (x q) (x p) \<noteq> None \<and> double_sub (y q) (y p) \<noteq> None
        \<and> double_sub (theta q) (theta p) \<noteq> None"
  proof -
    have fx: "do { d \<leftarrow> double_sub (x q) (x p); m \<leftarrow> double_mul d 0; double_add (x p) m } = Some (x p)"
      using that by (intro lerp_field_at_0) simp_all
    have fy: "do { d \<leftarrow> double_sub (y q) (y p); m \<leftarrow> double_mul d 0; double_add (y p) m } = Some (y p)"
      using that by (intro lerp_field_at_0) simp_all
    have ft: "do { d \<leftarrow> double_sub (theta q) (theta p); m \<leftarrow> double_mul d 0; double_add (theta p) m } = Some (theta p)"
      using that by (intro lerp_field_at_0) simp_all
    show ?thesis
      using fx fy ft by (cases p) (auto simp add: Pose2D_lerp_unfold g0 split: Option.bind_splits)
  qed
  have p1: "Pose2D_lerp p q 1 = Some q"
    if "is_double (x q) \<and> is_double (y q) \<and> is_double (theta q)
        \<and> is_double (x q - x p) \<and> is_double (y q - y p) \<and> is_double (theta q - theta p)"
  proof -
    have fx: "do { d \<leftarrow> double_sub (x q) (x p); m \<leftarrow> double_mul d 1; double_add (x p) m } = Some (x q)"
      using that by (intro lerp_field_at_1) simp_all
    have fy: "do { d \<leftarrow> double_sub (y q) (y p); m \<leftarrow> double_mul d 1; double_add (y p) m } = Some (y q)"
      using that by (intro lerp_field_at_1) simp_all
    have ft: "do { d \<leftarrow> double_sub (theta q) (theta p); m \<leftarrow> double_mul d 1; double_add (theta p) m } = Some (theta q)"
      using that by (intro lerp_field_at_1) simp_all
    show ?thesis
      using fx fy ft by (cases q) (auto simp add: Pose2D_lerp_unfold g1 split: Option.bind_splits)
  qed
  have d10: "double_round 10 = Some 10"
    using is_double_numeral [of "num.Bit0 (num.Bit1 (num.Bit0 num.One))"] by (simp add: is_double_def)
  have ex: "Vector2_lerp (Vector2_xy 0 0) (Vector2_xy 10 0) 2 = Some (Vector2_xy 10 0)"
    by (simp add: Vector2_lerp_def Vector2_xy_def guard_def double_sub_def double_mul_def
        double_add_def double_round_zero d10)
  show ?thesis
    using g g01 Vector2_lerp_unfold [of a b t] Pose2D_lerp_unfold [of p q t] lo hi v0 v1 p0 p1 ex
    by blast
qed

theorem lerp_clamps_then_rounds_witness:
  "Vector2_lerp (Vector2_xy 0 0) (Vector2_xy 10 4) 2 = Some (Vector2_xy 10 4)
   \<and> Vector2_lerp (Vector2_xy 0 0) (Vector2_xy 10 4) (- 1) = Some (Vector2_xy 0 0)
   \<and> Pose2D_lerp (Pose2D_xyt 1 2 3) (Pose2D_xyt 5 6 7) 2 = Some (Pose2D_xyt 5 6 7)
   \<and> Pose2D_lerp (Pose2D_xyt 1 2 3) (Pose2D_xyt 5 6 7) (- 1) = Some (Pose2D_xyt 1 2 3)"
proof -
  have d: "is_double 0" "is_double 1" "is_double 2" "is_double 3" "is_double 4" "is_double 5"
    "is_double 6" "is_double 7" "is_double 10"
    by (simp_all add: is_double_zero is_double_one is_double_numeral)
  have s: "double_sub 10 0 \<noteq> None" "double_sub 4 0 \<noteq> None" "double_sub 5 1 \<noteq> None"
    "double_sub 6 2 \<noteq> None" "double_sub 7 3 \<noteq> None"
    using d by (simp_all add: double_sub_def is_double_def)
  note hi = lerp_clamps_then_rounds
    [where t = 2 and a = "Vector2_xy 0 0" and b = "Vector2_xy 10 4"
       and p = "Pose2D_xyt 1 2 3" and q = "Pose2D_xyt 5 6 7",
     THEN conjunct2, THEN conjunct2, THEN conjunct2, THEN conjunct2, THEN conjunct2]
  note lo = lerp_clamps_then_rounds
    [where t = "- 1" and a = "Vector2_xy 0 0" and b = "Vector2_xy 10 4"
       and p = "Pose2D_xyt 1 2 3" and q = "Pose2D_xyt 5 6 7",
     THEN conjunct2, THEN conjunct2, THEN conjunct2, THEN conjunct2, THEN conjunct2]
  show ?thesis
    using hi lo d s by (simp add: Vector2_xy_def Pose2D_xyt_def)
qed

text \<open>
  C9. The claim: every geometric query, \<open>getDistanceFromPointToLine\<close> among them,
  performs no I/O and modifies nothing. \<open>getDistanceFromPointToLine\<close> inserts its three
  coefficients into \<open>std::cout\<close> on every call: for the point \<open>(7, 2)\<close> and the line
  \<open>(3,0)-(3,5)\<close> it returns \<open>4\<close> and leaves \<open>a:1 b:0 c:-3\<close> and a line end on the
  stream. \<open>getDistanceFromPointToLineWithinRange\<close> computes the same coefficients and
  writes nothing.
\<close>

theorem getDistanceFromPointToLine_writes_cout:
  "Line2D_getDistanceFromPointToLine (Pose2D_xy 7 2) (Line2D_xy 3 0 3 5) [] =
     Some (4, [Text ''a:'', Num 1, Text '' b:'', Num 0, Text '' c:'', Num (- 3), Endl])"
  by (simp add: Line2D_getDistanceFromPointToLine_def Line2D_xy_def Line2D_set4_def
      Line2D_default_def Pose2D_default_def Pose2D_xy_def Line2D_eps_def fdiv_def)

text \<open>
  C10. The arithmetic operators of Pose2D (unary minus, \<open>+\<close>, \<open>-\<close>, \<open>* s\<close>, \<open>/ s\<close> and
  the compound assignments) treat \<open>theta\<close> exactly as \<open>x\<close> and \<open>y\<close>. So the pose that
  \<open>getIntersection\<close> returns for two crossing lines has
  \<open>theta = line1.start.theta + k (line1.end.theta - line1.start.theta)\<close>, where \<open>k\<close> is
  the parameter \<open>getCross(b, line2.start - line1.start) / getCross(b, a)\<close> solved for the
  position.
\<close>

theorem Pose2D_operators_act_on_theta:
  "Pose2D_uminus p = \<lparr>x = - x p, y = - y p, theta = - theta p\<rparr>
   \<and> Pose2D_plus p v = \<lparr>x = x p + x v, y = y p + y v, theta = theta p + theta v\<rparr>
   \<and> Pose2D_minus p v = \<lparr>x = x p - x v, y = y p - y v, theta = theta p - theta v\<rparr>
   \<and> Pose2D_times p s = \<lparr>x = x p * s, y = y p * s, theta = theta p * s\<rparr>
   \<and> (s \<noteq> 0 \<longrightarrow> Pose2D_divide p s = Some \<lparr>x = x p / s, y = y p / s, theta = theta p / s\<rparr>)
   \<and> Pose2D_plus_assign p v = Pose2D_plus p v
   \<and> Pose2D_minus_assign p v = Pose2D_minus p v
   \<and> Pose2D_times_assign p s = Pose2D_times p s
   \<and> Pose2D_divide_assign p s = Pose2D_divide p s
   \<and> (\<bar>Pose2D_getCross (Pose2D_minus (end_pt line1) (start line1))
                        (Pose2D_minus (end_pt line2) (start line2))\<bar> > Line2D_eps \<longrightarrow>
       (\<exists>pt. Line2D_getIntersection line1 line2 = Some (True, pt)
          \<and> theta pt = theta (start line1)
               + Pose2D_getCross (Pose2D_minus (end_pt line2) (start line2))
                                 (Pose2D_minus (start line2) (start line1))
                 / Pose2D_getCross (Pose2D_minus (end_pt line2) (start line2))
                                   (Pose2D_minus (end_pt line1) (start line1))
                 * (theta (end_pt line1) - theta (start line1))))"
proof -
  let ?a = "Pose2D_minus (end_pt line1) (start line1)"
  let ?b = "Pose2D_minus (end_pt line2) (start line2)"
  have ops: "Pose2D_uminus p = \<lparr>x = - x p, y = - y p, theta = - theta p\<rparr>
   \<and> Pose2D_plus p v = \<lparr>x = x p + x v, y = y p + y v, theta = theta p + theta v\<rparr>
   \<and> Pose2D_minus p v = \<lparr>x = x p - x v, y = y p - y v, theta = theta p - theta v\<rparr>
   \<and> Pose2D_times p s = \<lparr>x = x p * s, y = y p * s, theta = theta p * s\<rparr>"
    by (simp add: Pose2D_uminus_def Pose2D_plus_def Pose2D_minus_def Pose2D_times_def)
  have asg: "Pose2D_plus_assign p v = Pose2D_plus p v
   \<and> Pose2D_minus_assign p v = Pose2D_minus p v
   \<and> Pose2D_times_assign p s = Pose2D_times p s"
    by (simp add: Pose2D_plus_assign_def Pose2D_minus_assign_def Pose2D_times_assign_def
        Pose2D_plus_def Pose2D_minus_def Pose2D_times_def Let_def)
  have isect: "\<exists>pt. Line2D_getIntersection line1 line2 = Some (True, pt)
          \<and> theta pt = theta (start line1)
               + Pose2D_getCross ?b (Pose2D_minus (start line2) (start line1))
                 / Pose2D_getCross ?b ?a
                 * (theta (end_pt line1) - theta (start line1))"
    if c: "\<bar>Pose2D_getCross ?a ?b\<bar> > Line2D_eps"
  proof -
    have nz: "Pose2D_getCross ?b ?a \<noteq> 0"
      using c eps_pos getCross_swap [of ?b ?a] by linarith
    have "Line2D_getIntersection line1 line2 =
        Some (True, Pose2D_plus (start line1)
                \<lparr>x = x (Pose2D_times ?a (Pose2D_getCross ?b (Pose2D_minus (start line2) (start line1)))) / Pose2D_getCross ?b ?a,
                 y = y (Pose2D_times ?a (Pose2D_getCross ?b (Pose2D_minus (start line2) (start line1)))) / Pose2D_getCross ?b ?a,
                 theta = theta (Pose2D_times ?a (Pose2D_getCross ?b (Pose2D_minus (start line2) (start line1)))) / Pose2D_getCross ?b ?a\<rparr>)"
      using c by (simp add: Line2D_getIntersection_def Pose2D_divide_Some [OF nz] Let_def)
    moreover have "theta (Pose2D_plus (start line1)
                \<lparr>x = x (Pose2D_times ?a (Pose2D_getCross ?b (Pose2D_minus (start line2) (start line1)))) / Pose2D_getCross ?b ?a,
                 y = y (Pose2D_times ?a (Pose2D_getCross ?b (Pose2D_minus (start line2) (start line1)))) / Pose2D_getCross ?b ?a,
                 theta = theta (Pose2D_times ?a (Pose2D_getCross ?b (Pose2D_minus (start line2) (start line1)))) / Pose2D_getCross ?b ?a\<rparr>)
         = theta (start line1)
               + Pose2D_getCross ?b (Pose2D_minus (start line2) (start line1))
                 / Pose2D_getCross ?b ?a
                 * (theta (end_pt line1) - theta (start line1))"
      by (simp add: Pose2D_plus_def Pose2D_times_def Pose2D_minus_def)
    ultimately show ?thesis
      by blast
  qed
  show ?thesis
    using ops asg Pose2D_divide_Some [of s p] Pose2D_divide_assign_eq [of p s] isect
    by blast
qed

theorem Pose2D_operators_act_on_theta_witness:
  "(\<exists>pt. Line2D_getIntersection (Line2D_poses (Pose2D_xyt 0 0 1) (Pose2D_xyt 4 4 3))
                                   (Line2D_xy 0 4 4 0) = Some (True, pt)
         \<and> theta pt = 2)
   \<and> Pose2D_divide (Pose2D_xyt 2 4 6) 2 = Some (Pose2D_xyt 1 2 3)
   \<and> Pose2D_divide_assign (Pose2D_xyt 2 4 6) 2 = Some (Pose2D_xyt 1 2 3)"
proof -
  have c: "\<bar>Pose2D_getCross
        (Pose2D_minus (end_pt (Line2D_poses (Pose2D_xyt 0 0 1) (Pose2D_xyt 4 4 3)))
                      (start (Line2D_poses (Pose2D_xyt 0 0 1) (Pose2D_xyt 4 4 3))))
        (Pose2D_minus (end_pt (Line2D_xy 0 4 4 0)) (start (Line2D_xy 0 4 4 0)))\<bar> > Line2D_eps"
    by (simp add: Line2D_poses_def Line2D_set_poses_def Line2D_xy_def Line2D_set4_def
        Line2D_default_def Pose2D_default_def Pose2D_xyt_def Pose2D_minus_def
        Pose2D_getCross_def Line2D_eps_def)
  have t: "theta (start (Line2D_poses (Pose2D_xyt 0 0 1) (Pose2D_xyt 4 4 3)))
             + Pose2D_getCross (Pose2D_minus (end_pt (Line2D_xy 0 4 4 0)) (start (Line2D_xy 0 4 4 0)))
                 (Pose2D_minus (start (Line2D_xy 0 4 4 0))
                               (start (Line2D_poses (Pose2D_xyt 0 0 1) (Pose2D_xyt 4 4 3))))
               / Pose2D_getCross (Pose2D_minus (end_pt (Line2D_xy 0 4 4 0)) (start (Line2D_xy 0 4 4 0)))
                   (Pose2D_minus (end_pt (Line2D_poses (Pose2D_xyt 0 0 1) (Pose2D_xyt 4 4 3)))
                                 (start (Line2D_poses (Pose2D_xyt 0 0 1) (Pose2D_xyt 4 4 3))))
               * (theta (end_pt (Line2D_poses (Pose2D_xyt 0 0 1) (Pose2D_xyt 4 4 3)))
                  - theta (start (Line2D_poses (Pose2D_xyt 0 0 1) (Pose2D_xyt 4 4 3)))) = 2"
    by (simp add: Line2D_poses_def Line2D_set_poses_def Line2D_xy_def Line2D_set4_def
        Line2D_default_def Pose2D_default_def Pose2D_xyt_def Pose2D_minus_def
        Pose2D_getCross_def)
  have d: "\<lparr>x = x (Pose2D_xyt 2 4 6) / 2, y = y (Pose2D_xyt 2 4 6) / 2,
            theta = theta (Pose2D_xyt 2 4 6) / 2\<rparr> = Pose2D_xyt 1 2 3"
    by (simp add: Pose2D_xyt_def)
  show ?thesis
    using Pose2D_operators_act_on_theta [where p = "Pose2D_xyt 2 4 6" and s = 2
        and ?line1.0 = "Line2D_poses (Pose2D_xyt 0 0 1) (Pose2D_xyt 4 4 3)"
        and ?line2.0 = "Line2D_xy 0 4 4 0"] c
    by (simp only: t d)
qed

end
